theory Spec2Isabelle
  imports Main "HOL-Library.Multiset"
begin

section \<open>Python values and library functions used by upload\_to\_kv.py\<close>

text \<open>
  The script manipulates dynamically typed Python values: rows of a CSV file (dicts from
  column names to strings), objects loaded from JSON, and the problem dicts it builds.
  A Python value is a \<open>pyval\<close>; a dict is an association list in insertion order (the order
  is what \<open>json.dumps\<close> and \<open>row.items()\<close> see). Floating-point numbers are kept abstract
  in the type parameter \<open>'f\<close>: no property below depends on their values.

  A Python \<open>str\<close> is a \<open>string\<close> whose characters stand for the code points 0 to 255.
  Code points above 255 are outside the model.
\<close>

datatype py_exc = ValueError | TypeError | AttributeError | KeyError | OverflowError
  | OSError | JSONDecodeError | UnicodeDecodeError

datatype 'f pyval =
    PNone
  | PBool bool
  | PInt int
  | PFloat 'f
  | PStr string
  | PList "'f pyval list"
  | PDict "(string \<times> 'f pyval) list"

text \<open>
  Builtins and library calls that the script uses and whose results are not modelled in
  detail are parameters: \<open>float(s)\<close> on a string (\<open>None\<close> is \<open>ValueError\<close>), \<open>int(x)\<close> and
  \<open>bool(x)\<close> on a float, \<open>str(v)\<close> on a value that is not an int, and
  \<open>json.dumps(v, ensure_ascii=False, separators=(',', ':'))\<close>.
\<close>

record 'f pylib =
  float_of_str :: "string \<Rightarrow> 'f option"
  int_of_float :: "'f \<Rightarrow> py_exc + int"
  float_truthy :: "'f \<Rightarrow> bool"
  str_other :: "'f pyval \<Rightarrow> string"
  json_dumps :: "'f pyval \<Rightarrow> string"

subsection \<open>Strings\<close>

text \<open>\<open>str.isspace\<close> on the code points 0 to 255: TAB to CR, FS to US, space, NEL, NBSP.\<close>

definition py_isspace :: "char \<Rightarrow> bool" where
  "py_isspace c =
     (let n = (of_char c :: nat)
      in (9 \<le> n \<and> n \<le> 13) \<or> (28 \<le> n \<and> n \<le> 32) \<or> n = 133 \<or> n = 160)"

definition strip_by :: "(char \<Rightarrow> bool) \<Rightarrow> string \<Rightarrow> string" where
  "strip_by P s = rev (dropWhile P (rev (dropWhile P s)))"

text \<open>\<open>s.strip()\<close> and \<open>s.strip(chars)\<close>.\<close>

definition str_strip :: "string \<Rightarrow> string" where
  "str_strip s = strip_by py_isspace s"

definition str_strip_chars :: "string \<Rightarrow> string \<Rightarrow> string" where
  "str_strip_chars chars s = strip_by (\<lambda>c. c \<in> set chars) s"

text \<open>\<open>s.split(sep)\<close> for a one-character separator: the empty string splits into \<open>['']\<close>.\<close>

fun str_split :: "char \<Rightarrow> string \<Rightarrow> string list" where
  "str_split sep [] = [[]]"
| "str_split sep (c # cs) =
     (if c = sep then [] # str_split sep cs
      else (case str_split sep cs of
              [] \<Rightarrow> [[c]]
            | w # ws \<Rightarrow> (c # w) # ws))"

text \<open>\<open>s.replace(c, '')\<close> for a one-character \<open>c\<close>.\<close>

definition str_remove :: "char \<Rightarrow> string \<Rightarrow> string" where
  "str_remove c s = filter (\<lambda>x. x \<noteq> c) s"

text \<open>\<open>path.endswith(suffix)\<close>.\<close>

definition endswith :: "string \<Rightarrow> string \<Rightarrow> bool" where
  "endswith s suffix =
     (length suffix \<le> length s \<and> drop (length s - length suffix) s = suffix)"

subsection \<open>Integers and their decimal text\<close>

definition is_digit :: "char \<Rightarrow> bool" where
  "is_digit c = (let n = (of_char c :: nat) in 48 \<le> n \<and> n \<le> 57)"

definition digit_val :: "char \<Rightarrow> nat" where
  "digit_val c = of_char c - 48"

text \<open>
  The digits of a base-10 literal after its sign: decimal digits, with single underscores
  allowed between two digits.
\<close>

fun int_digits :: "nat \<Rightarrow> string \<Rightarrow> nat option" where
  "int_digits acc [] = Some acc"
| "int_digits acc (c # cs) =
     (if is_digit c then int_digits (acc * 10 + digit_val c) cs
      else if c = CHR ''_'' then
        (case cs of
           [] \<Rightarrow> None
         | d # ds \<Rightarrow> if is_digit d then int_digits acc cs else None)
      else None)"

text \<open>
  The interpreter's default limit on the number of digits of a decimal literal
  (\<open>sys.int_info.default_max_str_digits\<close>, which the script does not change): a literal with
  more digits is rejected. Underscores, the sign and the whitespace do not count.
\<close>

definition max_str_digits :: nat where
  "max_str_digits = 4300"

definition int_literal :: "string \<Rightarrow> nat option" where
  "int_literal s =
     (case s of
        [] \<Rightarrow> None
      | c # cs \<Rightarrow>
          if is_digit c \<and> length (filter is_digit s) \<le> max_str_digits
          then int_digits 0 s else None)"

text \<open>
  The whitespace that \<open>int\<close> ignores around a literal: TAB to CR, space, NEL and NBSP. The
  separators FS to US, which \<open>str.strip\<close> removes, are not among them.
\<close>

definition int_isspace :: "char \<Rightarrow> bool" where
  "int_isspace c =
     (let n = (of_char c :: nat)
      in (9 \<le> n \<and> n \<le> 13) \<or> n = 32 \<or> n = 133 \<or> n = 160)"

text \<open>
  \<open>int(s)\<close> for a string: surrounding whitespace is ignored, one sign is allowed, and
  \<open>None\<close> stands for \<open>ValueError\<close>. A decimal point is not a digit: \<open>int("1.0")\<close> raises.
\<close>

definition int_of_str :: "string \<Rightarrow> int option" where
  "int_of_str s =
     (case strip_by int_isspace s of
        [] \<Rightarrow> None
      | c # cs \<Rightarrow>
          if c = CHR ''+'' then map_option int (int_literal cs)
          else if c = CHR ''-'' then map_option (\<lambda>n. - int n) (int_literal cs)
          else map_option int (int_literal (c # cs)))"

text \<open>\<open>str(i)\<close> for an int.\<close>

fun str_of_nat :: "nat \<Rightarrow> string" where
  "str_of_nat n =
     (if n < 10 then [char_of (48 + n)]
      else str_of_nat (n div 10) @ [char_of (48 + n mod 10)])"

definition str_of_int :: "int \<Rightarrow> string" where
  "str_of_int i = (if i < 0 then CHR ''-'' # str_of_nat (nat (- i)) else str_of_nat (nat i))"

subsection \<open>Dynamic operations on values\<close>

text \<open>Truthiness, as \<open>if not x\<close> tests it.\<close>

fun py_truthy :: "'f pylib \<Rightarrow> 'f pyval \<Rightarrow> bool" where
  "py_truthy lib PNone = False"
| "py_truthy lib (PBool b) = b"
| "py_truthy lib (PInt i) = (i \<noteq> 0)"
| "py_truthy lib (PFloat x) = float_truthy lib x"
| "py_truthy lib (PStr s) = (s \<noteq> [])"
| "py_truthy lib (PList xs) = (xs \<noteq> [])"
| "py_truthy lib (PDict d) = (d \<noteq> [])"

text \<open>\<open>int(x)\<close> on any value.\<close>

fun py_int :: "'f pylib \<Rightarrow> 'f pyval \<Rightarrow> py_exc + int" where
  "py_int lib (PInt i) = Inr i"
| "py_int lib (PBool b) = Inr (if b then 1 else 0)"
| "py_int lib (PFloat x) = int_of_float lib x"
| "py_int lib (PStr s) = (case int_of_str s of None \<Rightarrow> Inl ValueError | Some i \<Rightarrow> Inr i)"
| "py_int lib PNone = Inl TypeError"
| "py_int lib (PList xs) = Inl TypeError"
| "py_int lib (PDict d) = Inl TypeError"

text \<open>\<open>str(v)\<close>, as an f-string formats a value.\<close>

definition py_str :: "'f pylib \<Rightarrow> 'f pyval \<Rightarrow> string" where
  "py_str lib v = (case v of PInt i \<Rightarrow> str_of_int i | _ \<Rightarrow> str_other lib v)"

text \<open>\<open>x[k]\<close> for a string key: \<open>KeyError\<close> on a dict without it, \<open>TypeError\<close> on a non-dict.\<close>

fun subscript :: "'f pyval \<Rightarrow> string \<Rightarrow> py_exc + 'f pyval" where
  "subscript (PDict d) k = (case map_of d k of None \<Rightarrow> Inl KeyError | Some v \<Rightarrow> Inr v)"
| "subscript v k = Inl TypeError"

text \<open>\<open>x.get(k, default)\<close>: only a dict has the method.\<close>

fun py_get :: "'f pyval \<Rightarrow> string \<Rightarrow> 'f pyval \<Rightarrow> py_exc + 'f pyval" where
  "py_get (PDict d) k dflt = Inr (case map_of d k of None \<Rightarrow> dflt | Some v \<Rightarrow> v)"
| "py_get v k dflt = Inl AttributeError"

text \<open>\<open>d[k] = v\<close> on a dict: an existing key keeps its position, a new one goes last.\<close>

fun dict_set :: "('k \<times> 'v) list \<Rightarrow> 'k \<Rightarrow> 'v \<Rightarrow> ('k \<times> 'v) list" where
  "dict_set [] k v = [(k, v)]"
| "dict_set ((k', v') # d) k v =
     (if k' = k then (k, v) # d else (k', v') # dict_set d k v)"

text \<open>\<open>d.update(e)\<close>.\<close>

definition dict_update :: "('k \<times> 'v) list \<Rightarrow> ('k \<times> 'v) list \<Rightarrow> ('k \<times> 'v) list" where
  "dict_update d e = foldl (\<lambda>acc (k, v). dict_set acc k v) d e"

text \<open>\<open>for x in v\<close>: a list gives its elements, a dict its keys, a string its characters.\<close>

fun py_iter :: "'f pyval \<Rightarrow> py_exc + 'f pyval list" where
  "py_iter (PList xs) = Inr xs"
| "py_iter (PDict d) = Inr (map (\<lambda>(k, v). PStr k) d)"
| "py_iter (PStr s) = Inr (map (\<lambda>c. PStr [c]) s)"
| "py_iter v = Inl TypeError"

text \<open>Sequencing of steps that may raise.\<close>

definition exc_bind :: "py_exc + 'a \<Rightarrow> ('a \<Rightarrow> py_exc + 'b) \<Rightarrow> py_exc + 'b" where
  "exc_bind m f = (case m of Inl e \<Rightarrow> Inl e | Inr x \<Rightarrow> f x)"

fun exc_map :: "('a \<Rightarrow> py_exc + 'b) \<Rightarrow> 'a list \<Rightarrow> py_exc + 'b list" where
  "exc_map f [] = Inr []"
| "exc_map f (x # xs) =
     (case f x of
        Inl e \<Rightarrow> Inl e
      | Inr y \<Rightarrow> (case exc_map f xs of Inl e \<Rightarrow> Inl e | Inr ys \<Rightarrow> Inr (y # ys)))"

section \<open>Filter policy\<close>

definition should_process_problem :: "int \<Rightarrow> bool" where
  "should_process_problem problem_id =
     (if problem_id = 1262 then True
      else if problem_id \<ge> 1931 then True
      else False)"

section \<open>Record normalizer, tabular source\<close>

text \<open>
  A row is what \<open>csv.DictReader\<close> yields for a data line with as many fields as the header:
  a dict from column names to strings, here in column order.
\<close>

type_synonym row = "(string \<times> string) list"

text \<open>\<open>row.get(k, default)\<close>.\<close>

definition row_get :: "row \<Rightarrow> string \<Rightarrow> string \<Rightarrow> string" where
  "row_get row k dflt = (case map_of row k of None \<Rightarrow> dflt | Some v \<Rightarrow> v)"

text \<open>
  The list-valued columns \<open>topics\<close>, \<open>hints\<close> and \<open>similar_questions\<close> are parsed by the
  same three lines each: strip the field, and when it is not empty, drop the brackets, split
  at commas, and keep the stripped, unquoted pieces that are not blank.
\<close>

definition parse_list_field :: "row \<Rightarrow> string \<Rightarrow> 'f pyval list" where
  "parse_list_field row column =
     (let field_str = str_strip (row_get row column [])
      in if field_str \<noteq> []
         then map (\<lambda>t. PStr (str_strip_chars [CHR 0x22] (str_strip t)))
                (filter (\<lambda>t. str_strip t \<noteq> [])
                   (str_split (CHR '','') (str_strip_chars ''[]'' field_str)))
         else [])"

definition parse_acceptance_rate :: "'f pylib \<Rightarrow> row \<Rightarrow> 'f pyval" where
  "parse_acceptance_rate lib row =
     (let acceptance_rate_str = str_strip (row_get row ''acceptance_rate'' [])
      in if acceptance_rate_str \<noteq> []
         then (case float_of_str lib (str_strip (str_remove (CHR ''%'') acceptance_rate_str)) of
                 None \<Rightarrow> PNone
               | Some x \<Rightarrow> PFloat x)
         else PNone)"

text \<open>\<open>likes\<close> and \<open>dislikes\<close>: an integer, 0 when the field is blank or does not parse.\<close>

definition parse_count :: "row \<Rightarrow> string \<Rightarrow> int" where
  "parse_count row column =
     (if str_strip (row_get row column []) \<noteq> []
      then (case int_of_str (str_strip (row_get row column ''0'')) of
              None \<Rightarrow> 0
            | Some n \<Rightarrow> n)
      else 0)"

definition solution_codes :: "row \<Rightarrow> (string \<times> 'f pyval) list" where
  "solution_codes row =
     concat (map (\<lambda>lang.
        let code_key = ''solution_code_'' @ lang
        in (case map_of row code_key of
              None \<Rightarrow> []
            | Some code \<Rightarrow> if code \<noteq> [] then [(code_key, PStr code)] else []))
       [''python'', ''java'', ''cpp''])"

definition recognized_columns :: "string list" where
  "recognized_columns =
     [''difficulty'', ''frontendQuestionId'', ''paidOnly'', ''title'', ''titleSlug'', ''url'',
      ''description_url'', ''description'', ''solution_url'', ''solution'',
      ''solution_code_python'', ''solution_code_java'', ''solution_code_cpp'',
      ''solution_code_url'', ''category'', ''acceptance_rate'', ''topics'',
      ''hints'', ''likes'', ''dislikes'', ''similar_questions'', ''stats'']"

definition csv_metadata :: "'f pylib \<Rightarrow> row \<Rightarrow> (string \<times> 'f pyval) list" where
  "csv_metadata lib row =
     (let similar_questions = parse_list_field row ''similar_questions'';
          metadata =
            [(''category'', PStr (str_strip (row_get row ''category'' []))),
             (''topics'', PList (parse_list_field row ''topics'')),
             (''hints'', PList (parse_list_field row ''hints'')),
             (''acceptance_rate'', parse_acceptance_rate lib row),
             (''likes'', PInt (parse_count row ''likes'')),
             (''dislikes'', PInt (parse_count row ''dislikes''))];
          metadata =
            (if similar_questions \<noteq> []
             then dict_set metadata ''similar_questions'' (PList similar_questions)
             else metadata)
      in foldl (\<lambda>metadata (key, val).
                  if key \<notin> set recognized_columns \<and> val \<noteq> [] \<and> str_strip val \<noteq> []
                  then dict_set metadata key (PStr (str_strip val))
                  else metadata)
           metadata row)"

text \<open>The problem dict of a row whose identifier has been accepted (no step of it raises).\<close>

definition build_csv_problem :: "'f pylib \<Rightarrow> row \<Rightarrow> int \<Rightarrow> 'f pyval" where
  "build_csv_problem lib row problem_id =
     (let problem =
            [(''id'', PInt problem_id),
             (''difficulty'', PStr (str_strip (row_get row ''difficulty'' []))),
             (''title'', PStr (str_strip (row_get row ''title'' []))),
             (''titleSlug'', PStr (str_strip (row_get row ''titleSlug'' []))),
             (''url'', PStr (str_strip (row_get row ''url'' []))),
             (''description'', PStr (str_strip (row_get row ''description'' [])))];
          codes = solution_codes row;
          problem = (if codes \<noteq> [] then dict_update problem codes else problem);
          metadata = csv_metadata lib row;
          problem = (if metadata \<noteq> [] then dict_set problem ''metadata'' (PDict metadata)
                     else problem)
      in PDict problem)"

text \<open>The body of the \<open>try\<close> block: \<open>int(frontend_question_id)\<close> is its one raising step.\<close>

definition parse_csv_row_try :: "'f pylib \<Rightarrow> row \<Rightarrow> py_exc + 'f pyval option" where
  "parse_csv_row_try lib row =
     (let frontend_question_id = str_strip (row_get row ''frontendQuestionId'' [])
      in if frontend_question_id = [] then Inr None
         else (case int_of_str frontend_question_id of
                 None \<Rightarrow> Inl ValueError
               | Some problem_id \<Rightarrow>
                   if \<not> should_process_problem problem_id then Inr None
                   else Inr (Some (build_csv_problem lib row problem_id))))"

text \<open>\<open>except Exception\<close>: log the error and return \<open>None\<close>.\<close>

definition parse_csv_row :: "'f pylib \<Rightarrow> row \<Rightarrow> py_exc + 'f pyval option" where
  "parse_csv_row lib row =
     (case parse_csv_row_try lib row of
        Inl e \<Rightarrow> Inr None
      | Inr r \<Rightarrow> Inr r)"

section \<open>Record normalizer, structured source\<close>

definition parse_json_problem_try :: "'f pylib \<Rightarrow> 'f pyval \<Rightarrow> py_exc + 'f pyval option" where
  "parse_json_problem_try lib json_data =
     exc_bind (py_get json_data ''questionId'' PNone) (\<lambda>question_id.
       if \<not> py_truthy lib question_id then Inr None
       else exc_bind (py_int lib question_id) (\<lambda>problem_id.
         if \<not> should_process_problem problem_id then Inr None
         else
           exc_bind (py_get json_data ''difficulty'' (PStr [])) (\<lambda>difficulty.
           exc_bind (py_get json_data ''title'' (PStr [])) (\<lambda>title.
           exc_bind (py_get json_data ''titleSlug'' (PStr [])) (\<lambda>titleSlug.
           exc_bind (py_get json_data ''url'' (PStr [])) (\<lambda>url.
           exc_bind (py_get json_data ''description'' (PStr [])) (\<lambda>description.
           exc_bind (py_get json_data ''topics'' (PList [])) (\<lambda>topics.
           exc_bind (py_get json_data ''category'' (PStr ''General'')) (\<lambda>category.
             Inr (Some (PDict
               [(''id'', PInt problem_id),
                (''difficulty'', difficulty),
                (''title'', title),
                (''titleSlug'', titleSlug),
                (''url'', url),
                (''description'', description),
                (''metadata'', PDict [(''topics'', topics), (''category'', category)])]))
           )))))))))"

definition parse_json_problem :: "'f pylib \<Rightarrow> 'f pyval \<Rightarrow> py_exc + 'f pyval option" where
  "parse_json_problem lib json_data =
     (case parse_json_problem_try lib json_data of
        Inl e \<Rightarrow> Inr None
      | Inr r \<Rightarrow> Inr r)"

section \<open>Essentials builder\<close>

definition essential_of :: "'f pyval \<Rightarrow> py_exc + 'f pyval" where
  "essential_of problem =
     exc_bind (subscript problem ''id'') (\<lambda>pid.
     exc_bind (subscript problem ''title'') (\<lambda>title.
     exc_bind (subscript problem ''difficulty'') (\<lambda>difficulty.
     exc_bind (exc_bind (py_get problem ''metadata'' (PDict []))
                 (\<lambda>metadata. py_get metadata ''category'' (PStr []))) (\<lambda>category.
     exc_bind (exc_bind (py_get problem ''metadata'' (PDict []))
                 (\<lambda>metadata. py_get metadata ''topics'' (PList []))) (\<lambda>topics.
       Inr (PDict
         [(''id'', pid),
          (''title'', title),
          (''difficulty'', difficulty),
          (''category'', category),
          (''topics'', topics)]))))))"

text \<open>The sort key \<open>x["id"]\<close> of a summary, when it is an integer.\<close>

definition int_id :: "'f pyval \<Rightarrow> int option" where
  "int_id x = (case subscript x ''id'' of Inr (PInt i) \<Rightarrow> Some i | _ \<Rightarrow> None)"

text \<open>
  \<open>essentials.sort(key=lambda x: x["id"])\<close>. Python's sort is stable, and so is
  \<open>sort_key\<close>. The normalizers only produce integer ids; for keys that are not all integers
  (which Python compares, or rejects with \<open>TypeError\<close>, pair by pair) the model raises.
\<close>

definition sort_by_id :: "'f pyval list \<Rightarrow> py_exc + 'f pyval list" where
  "sort_by_id essentials =
     (if list_all (\<lambda>x. int_id x \<noteq> None) essentials
      then Inr (sort_key (\<lambda>x. the (int_id x)) essentials)
      else Inl TypeError)"

definition create_essentials_entry :: "'f pyval list \<Rightarrow> py_exc + 'f pyval" where
  "create_essentials_entry problems =
     exc_bind (exc_map essential_of problems) (\<lambda>essentials.
     exc_bind (sort_by_id essentials) (\<lambda>essentials.
       Inr (PDict
         [(''problems'', PList essentials),
          (''count'', PInt (int (length essentials))),
          (''last_updated'', PNone)])))"

section \<open>Key-value capability\<close>

text \<open>
  The remote store is reached through \<open>requests.put\<close> only. A store is any function that
  answers a write, given everything sent before it, with an HTTP status or by raising; the
  log records every write attempted, in order, with its key and value.
\<close>

datatype http_result = Status nat | Raised

type_synonym kv_log = "(string \<times> string) list"

type_synonym kv_store = "kv_log \<Rightarrow> string \<Rightarrow> string \<Rightarrow> http_result"

definition requests_put :: "kv_store \<Rightarrow> kv_log \<Rightarrow> string \<Rightarrow> string \<Rightarrow> http_result \<times> kv_log" where
  "requests_put store log key val = (store log key val, log @ [(key, val)])"

text \<open>\<open>CloudflareKVUploader.put\<close>.\<close>

definition put :: "kv_store \<Rightarrow> kv_log \<Rightarrow> string \<Rightarrow> string \<Rightarrow> bool \<times> kv_log" where
  "put store log key val =
     (case requests_put store log key val of
        (Status code, log') \<Rightarrow> (if code \<in> set [200, 201] then (True, log') else (False, log'))
      | (Raised, log') \<Rightarrow> (False, log'))"

record results =
  success :: int
  failed :: int

text \<open>
  \<open>CloudflareKVUploader.put_bulk\<close>: one write per entry, each in its own \<open>try\<close>. The outer
  handler of the method is never reached: nothing outside the inner \<open>try\<close> raises.
\<close>

fun put_bulk_loop :: "kv_store \<Rightarrow> (string \<times> string) list \<Rightarrow> results \<times> kv_log \<Rightarrow> results \<times> kv_log" where
  "put_bulk_loop store [] st = st"
| "put_bulk_loop store ((key, val) # entries) (results, log) =
     (case requests_put store log key val of
        (Status code, log') \<Rightarrow>
          if code \<in> set [200, 201]
          then put_bulk_loop store entries (results\<lparr>success := success results + 1\<rparr>, log')
          else put_bulk_loop store entries (results\<lparr>failed := failed results + 1\<rparr>, log')
      | (Raised, log') \<Rightarrow>
          put_bulk_loop store entries (results\<lparr>failed := failed results + 1\<rparr>, log'))"

definition put_bulk :: "kv_store \<Rightarrow> kv_log \<Rightarrow> (string \<times> string) list \<Rightarrow> results \<times> kv_log" where
  "put_bulk store log entries = put_bulk_loop store entries (\<lparr>success = 0, failed = 0\<rparr>, log)"

section \<open>Batch uploader\<close>

text \<open>The entry of one problem: key \<open>f"problem:{problem['id']}"\<close>, value its compact JSON.\<close>

definition problem_entry :: "'f pylib \<Rightarrow> 'f pyval \<Rightarrow> py_exc + (string \<times> string)" where
  "problem_entry lib problem =
     exc_bind (subscript problem ''id'') (\<lambda>pid.
       Inr (''problem:'' @ py_str lib pid, json_dumps lib problem))"

text \<open>\<open>range(start, stop, step)\<close> for a positive step.\<close>

function py_range :: "nat \<Rightarrow> nat \<Rightarrow> nat \<Rightarrow> nat list" where
  "py_range i stop step =
     (if 0 < step \<and> i < stop then i # py_range (i + step) stop step else [])"
  by pat_completeness auto
termination
  by (relation "measure (\<lambda>(i, stop, step). stop - i)") auto

declare py_range.simps [simp del]

text \<open>
  \<open>range(0, len(problems), batch_size)\<close>: a zero step raises \<open>ValueError\<close>, a negative one
  gives the empty range.
\<close>

definition batch_starts :: "nat \<Rightarrow> int \<Rightarrow> py_exc + nat list" where
  "batch_starts n batch_size =
     (if batch_size = 0 then Inl ValueError
      else if batch_size < 0 then Inr []
      else Inr (py_range 0 n (nat batch_size)))"

text \<open>\<open>problems[i:i + batch_size]\<close> for \<open>i\<close> in the range.\<close>

definition batch_at :: "'a list \<Rightarrow> int \<Rightarrow> nat \<Rightarrow> 'a list" where
  "batch_at problems batch_size i = take (nat batch_size) (drop i problems)"

text \<open>
  The uploader object is a parameter of \<open>upload_file_to_kv\<close>, and the upload loop uses only
  its \<open>put_bulk\<close> method: a function from the state of the uploader and the entries of a
  call to the result dict and the new state.
\<close>

type_synonym 's bulk_writer = "'s \<Rightarrow> (string \<times> string) list \<Rightarrow> results \<times> 's"

text \<open>
  The loop over the batches. It carries the two counters and the state of the uploader; an
  exception while the entries of a batch are built leaves the loop with the calls made so
  far.
\<close>

fun upload_batches ::
  "'f pylib \<Rightarrow> 's bulk_writer \<Rightarrow> 'f pyval list \<Rightarrow> int \<Rightarrow> nat list \<Rightarrow> (int \<times> int) \<times> 's
     \<Rightarrow> (py_exc + (int \<times> int)) \<times> 's" where
  "upload_batches lib bulk problems batch_size [] (counts, st) = (Inr counts, st)"
| "upload_batches lib bulk problems batch_size (i # starts) ((success_count, failed_count), st) =
     (case exc_map (problem_entry lib) (batch_at problems batch_size i) of
        Inl e \<Rightarrow> (Inl e, st)
      | Inr entries \<Rightarrow>
          (case bulk st entries of
             (result, st') \<Rightarrow>
               upload_batches lib bulk problems batch_size starts
                 ((success_count + success result, failed_count + failed result), st')))"

text \<open>The problem phase of \<open>upload_file_to_kv\<close>.\<close>

definition upload_problems ::
  "'f pylib \<Rightarrow> 's bulk_writer \<Rightarrow> 'f pyval list \<Rightarrow> int \<Rightarrow> 's \<Rightarrow> (py_exc + (int \<times> int)) \<times> 's" where
  "upload_problems lib bulk problems batch_size st =
     (case batch_starts (length problems) batch_size of
        Inl e \<Rightarrow> (Inl e, st)
      | Inr starts \<Rightarrow> upload_batches lib bulk problems batch_size starts ((0, 0), st))"

section \<open>Pipeline driver\<close>

text \<open>
  An input file is its path together with what reading it gives: the value \<open>json.load\<close>
  returns for its content and the rows \<open>csv.DictReader\<close> yields for it, or the exception
  that opening or decoding raises.
\<close>

record 'f source_file =
  file_path :: string
  json_content :: "py_exc + 'f pyval"
  csv_content :: "py_exc + row list"

text \<open>Where the structured branch finds the list of problem objects.\<close>

fun json_raw_problems :: "'f pyval \<Rightarrow> 'f pyval option" where
  "json_raw_problems (PDict d) = map_of d ''problems''"
| "json_raw_problems (PList xs) = Some (PList xs)"
| "json_raw_problems v = None"

text \<open>\<open>if problem: problems.append(problem)\<close> over the results of a normalizer.\<close>

definition keep_problems :: "'f pylib \<Rightarrow> 'f pyval option list \<Rightarrow> 'f pyval list" where
  "keep_problems lib rs =
     List.map_filter
       (\<lambda>r. case r of None \<Rightarrow> None | Some p \<Rightarrow> if py_truthy lib p then Some p else None) rs"

text \<open>
  Reading and parsing. \<open>Inr None\<close> is the early return on a JSON document that is neither a
  list nor an object with a \<open>problems\<close> key.
\<close>

definition read_problems :: "'f pylib \<Rightarrow> 'f source_file \<Rightarrow> py_exc + 'f pyval list option" where
  "read_problems lib file =
     (if endswith (file_path file) ''.json''
      then exc_bind (json_content file) (\<lambda>data.
             case json_raw_problems data of
               None \<Rightarrow> Inr None
             | Some raw_problems \<Rightarrow>
                 exc_bind (py_iter raw_problems) (\<lambda>ps.
                 exc_bind (exc_map (parse_json_problem lib) ps) (\<lambda>rs.
                   Inr (Some (keep_problems lib rs)))))
      else exc_bind (csv_content file) (\<lambda>rows.
             exc_bind (exc_map (parse_csv_row lib) rows) (\<lambda>rs.
               Inr (Some (keep_problems lib rs)))))"

text \<open>\<open>essentials["last_updated"] = v\<close>.\<close>

fun set_item :: "'f pyval \<Rightarrow> string \<Rightarrow> 'f pyval \<Rightarrow> py_exc + 'f pyval" where
  "set_item (PDict d) k v = Inr (PDict (dict_set d k v))"
| "set_item x k v = Inl TypeError"

text \<open>The warnings and errors the driver itself logs about the run as a whole.\<close>

datatype run_note = InvalidJsonFormat | NoProblemsFound
  | EssentialsUploaded | EssentialsFailed | EssentialsSkipped

record upload_run =
  returned :: "py_exc + (int \<times> int)"
  requests :: kv_log
  logged :: "run_note list"

text \<open>The essentials phase; \<open>now\<close> is \<open>int(time.time())\<close>.\<close>

definition upload_essentials ::
  "'f pylib \<Rightarrow> kv_store \<Rightarrow> 'f pyval list \<Rightarrow> int \<Rightarrow> int \<times> int \<Rightarrow> kv_log \<Rightarrow> upload_run" where
  "upload_essentials lib store problems now counts log =
     (case exc_bind (create_essentials_entry problems)
             (\<lambda>essentials. set_item essentials ''last_updated'' (PStr (str_of_int now))) of
        Inl e \<Rightarrow> \<lparr>returned = Inl e, requests = log, logged = []\<rparr>
      | Inr essentials \<Rightarrow>
          (case put store log ''essentials'' (json_dumps lib essentials) of
             (True, log') \<Rightarrow>
               \<lparr>returned = Inr (fst counts + 1, snd counts), requests = log',
                logged = [EssentialsUploaded]\<rparr>
           | (False, log') \<Rightarrow>
               \<lparr>returned = Inr (fst counts, snd counts + 1), requests = log',
                logged = [EssentialsFailed]\<rparr>))"

definition upload_file_to_kv ::
  "'f pylib \<Rightarrow> kv_store \<Rightarrow> 'f source_file \<Rightarrow> int \<Rightarrow> bool \<Rightarrow> int \<Rightarrow> kv_log \<Rightarrow> upload_run" where
  "upload_file_to_kv lib store file batch_size skip_essentials now log =
     (case read_problems lib file of
        Inl e \<Rightarrow> \<lparr>returned = Inl e, requests = log, logged = []\<rparr>
      | Inr None \<Rightarrow> \<lparr>returned = Inr (0, 0), requests = log, logged = [InvalidJsonFormat]\<rparr>
      | Inr (Some problems) \<Rightarrow>
          if problems = []
          then \<lparr>returned = Inr (0, 0), requests = log, logged = [NoProblemsFound]\<rparr>
          else (case upload_problems lib (put_bulk store) problems batch_size log of
                  (Inl e, log') \<Rightarrow> \<lparr>returned = Inl e, requests = log', logged = []\<rparr>
                | (Inr counts, log') \<Rightarrow>
                    if \<not> skip_essentials
                    then upload_essentials lib store problems now counts log'
                    else \<lparr>returned = Inr counts, requests = log',
                          logged = [EssentialsSkipped]\<rparr>))"

text \<open>
  \<open>main\<close> after argument parsing: \<open>None\<close> is a path that does not exist. The process exits
  with 1 through \<open>sys.exit(1)\<close> and with 0 when \<open>main\<close> returns.
\<close>

datatype final_status = AllUploadsCompleted | UploadsFailed int | FatalError py_exc | FileNotFound

record main_run =
  exit_code :: int
  status :: final_status
  sent :: kv_log
  warnings :: "run_note list"

definition main ::
  "'f pylib \<Rightarrow> kv_store \<Rightarrow> 'f source_file option \<Rightarrow> int \<Rightarrow> bool \<Rightarrow> int \<Rightarrow> main_run" where
  "main lib store file_opt batch_size skip_essentials now =
     (case file_opt of
        None \<Rightarrow> \<lparr>exit_code = 1, status = FileNotFound, sent = [], warnings = []\<rparr>
      | Some file \<Rightarrow>
          (let run = upload_file_to_kv lib store file batch_size skip_essentials now []
           in case returned run of
                Inl e \<Rightarrow>
                  \<lparr>exit_code = 1, status = FatalError e, sent = requests run,
                   warnings = logged run\<rparr>
              | Inr (success_count, failed_count) \<Rightarrow>
                  \<lparr>exit_code = 0,
                   status = (if failed_count = 0 then AllUploadsCompleted
                             else UploadsFailed failed_count),
                   sent = requests run, warnings = logged run\<rparr>))"

section \<open>Predicates of the statements\<close>

text \<open>
  A well-formed problem has an integer \<open>id\<close> and the five text fields, each a string.
\<close>

definition well_formed_problem :: "'f pyval \<Rightarrow> bool" where
  "well_formed_problem p =
     (int_id p \<noteq> None \<and>
      list_all (\<lambda>k. case subscript p k of Inr (PStr s) \<Rightarrow> True | _ \<Rightarrow> False)
        [''difficulty'', ''title'', ''titleSlug'', ''url'', ''description''])"

definition metadata_category :: "'f pyval \<Rightarrow> py_exc + 'f pyval" where
  "metadata_category p = exc_bind (subscript p ''metadata'') (\<lambda>m. subscript m ''category'')"

text \<open>
  What the essentials builder needs of a problem, and what both normalizers provide: an
  integer \<open>id\<close>, a \<open>title\<close>, a \<open>difficulty\<close>, and a \<open>metadata\<close> that is a dict when present.
\<close>

definition is_problem :: "'f pyval \<Rightarrow> bool" where
  "is_problem p =
     (int_id p \<noteq> None
      \<and> (case subscript p ''title'' of Inr t \<Rightarrow> True | Inl e \<Rightarrow> False)
      \<and> (case subscript p ''difficulty'' of Inr d \<Rightarrow> True | Inl e \<Rightarrow> False)
      \<and> (case py_get p ''metadata'' (PDict []) of Inr (PDict m) \<Rightarrow> True | _ \<Rightarrow> False))"

definition problem_id :: "'f pyval \<Rightarrow> int" where
  "problem_id p = the (int_id p)"

text \<open>
  The value a problem holds under a key, and the value its metadata holds under a key, with
  a default for a problem without metadata and for metadata without the key.
\<close>

definition field :: "'f pyval \<Rightarrow> string \<Rightarrow> 'f pyval" where
  "field p k =
     (case p of
        PDict d \<Rightarrow> (case map_of d k of Some v \<Rightarrow> v | None \<Rightarrow> PNone)
      | _ \<Rightarrow> PNone)"

definition metadata_field :: "'f pyval \<Rightarrow> string \<Rightarrow> 'f pyval \<Rightarrow> 'f pyval" where
  "metadata_field p k dflt =
     (case field p ''metadata'' of
        PDict m \<Rightarrow> (case map_of m k of Some v \<Rightarrow> v | None \<Rightarrow> dflt)
      | _ \<Rightarrow> dflt)"

text \<open>
  The 5-field summary of a problem: its id, title and difficulty, and the category and the
  topics of its metadata, the empty string and the empty list where there are none.
\<close>

definition summary_of :: "'f pyval \<Rightarrow> 'f pyval" where
  "summary_of p =
     PDict [(''id'', field p ''id''),
            (''title'', field p ''title''),
            (''difficulty'', field p ''difficulty''),
            (''category'', metadata_field p ''category'' (PStr [])),
            (''topics'', metadata_field p ''topics'' (PList []))]"

text \<open>A problem whose \<open>id\<close> can be read, as the uploader reads it to build the key.\<close>

definition has_id :: "'f pyval \<Rightarrow> bool" where
  "has_id p = (case subscript p ''id'' of Inr v \<Rightarrow> True | Inl e \<Rightarrow> False)"

text \<open>
  The entry to be written for a problem: the key is \<open>problem:\<close> followed by the text of the
  id, the value is the compact JSON text of the whole problem.
\<close>

definition entry_of :: "'f pylib \<Rightarrow> 'f pyval \<Rightarrow> string \<times> string" where
  "entry_of lib p = (''problem:'' @ py_str lib (field p ''id''), json_dumps lib p)"

text \<open>
  The contiguous batches of a list for a positive batch size: the slice of that length at
  each start of the range.
\<close>

definition batches :: "'a list \<Rightarrow> int \<Rightarrow> 'a list list" where
  "batches problems batch_size =
     (case batch_starts (length problems) batch_size of
        Inl e \<Rightarrow> []
      | Inr starts \<Rightarrow> map (batch_at problems batch_size) starts)"

text \<open>
  The answers of the store to a sequence of writes, each given all the writes before it.
  A write is accepted when the answer is the status 200 or 201; a write with any other
  status, or one that raises, has failed.
\<close>

fun write_outcomes :: "kv_store \<Rightarrow> kv_log \<Rightarrow> (string \<times> string) list \<Rightarrow> http_result list" where
  "write_outcomes store log [] = []"
| "write_outcomes store log ((key, val) # entries) =
     store log key val # write_outcomes store (log @ [(key, val)]) entries"

definition accepted :: "http_result \<Rightarrow> bool" where
  "accepted r = (r = Status 200 \<or> r = Status 201)"

definition write_failed :: "http_result \<Rightarrow> bool" where
  "write_failed r = (r \<noteq> Status 200 \<and> r \<noteq> Status 201)"

text \<open>
  An uploader that only records the entries of each \<open>put_bulk\<close> call it receives, and reports
  them all as written.
\<close>

definition recording_uploader :: "(string \<times> string) list list bulk_writer" where
  "recording_uploader calls entries =
     (\<lparr>success = int (length entries), failed = 0\<rparr>, calls @ [entries])"



section \<open>Sample inputs\<close>

definition sample_lib :: "unit pylib" where
  "sample_lib =
     \<lparr>float_of_str = (\<lambda>s. None), int_of_float = (\<lambda>x. Inl OverflowError),
      float_truthy = (\<lambda>x. False), str_other = (\<lambda>v. ''?''), json_dumps = (\<lambda>v. ''{}'')\<rparr>"

definition sample_object :: "(string \<times> unit pyval) list" where
  "sample_object = [(''questionId'', PInt 1262), (''title'', PStr ''Two Sum'')]"

definition sample_row :: row where
  "sample_row = [(''frontendQuestionId'', ''1262''), (''title'', ''Two Sum'')]"


definition sample_problem :: "int \<Rightarrow> unit pyval" where
  "sample_problem i =
     PDict [(''id'', PInt i), (''title'', PStr ''T''), (''difficulty'', PStr ''Easy''),
            (''metadata'', PDict [(''category'', PStr ''Array''), (''topics'', PList [])])]"

definition sample_problems :: "unit pyval list" where
  "sample_problems = map sample_problem [1931, 1262, 2000, 2001, 2002]"

text \<open>A store that rejects the third write it receives and accepts every other one.\<close>

definition fail_third :: kv_store where
  "fail_third log key val = (if length log = 2 then Status 500 else Status 200)"

text \<open>
  A file \<open>problems.json\<close> holding a one-line JSON list with one problem object. Read as
  CSV, its only line is the header, so there are no rows.
\<close>

definition sample_json_file :: "unit source_file" where
  "sample_json_file =
     \<lparr>file_path = ''problems.json'',
      json_content = Inr (PList [PDict sample_object]),
      csv_content = Inr []\<rparr>"

text \<open>
  A file \<open>problems.csv\<close> with one row, whose id the filter rejects. It is not a JSON
  document.
\<close>

definition sample_csv_file :: "unit source_file" where
  "sample_csv_file =
     \<lparr>file_path = ''problems.csv'',
      json_content = Inl JSONDecodeError,
      csv_content = Inr [[(''frontendQuestionId'', ''5''), (''title'', ''T'')]]\<rparr>"

text \<open>A store that accepts every write, and one that rejects every write.\<close>

definition accept_all :: kv_store where
  "accept_all log key val = Status 200"

definition reject_all :: kv_store where
  "reject_all log key val = Status 403"

section \<open>Properties\<close>

text \<open>
  C2. For every integer id, \<open>should_process_problem\<close> returns true exactly when the id is
  1262 or at least 1931; in particular it rejects 1261 and 1930.
\<close>

theorem should_process_problem_iff:
  "should_process_problem i = (i = 1262 \<or> i \<ge> 1931)
   \<and> \<not> should_process_problem 1261 \<and> \<not> should_process_problem 1930"
  by (simp add: should_process_problem_def)

subsection \<open>Dicts and the tabular normalizer\<close>

lemma map_of_dict_set: "map_of (dict_set d k v) = (map_of d)(k \<mapsto> v)"
  by (induction d) (auto simp: fun_eq_iff)

lemma map_of_dict_update_other:
  "k \<notin> fst ` set e \<Longrightarrow> map_of (dict_update d e) k = map_of d k"
  unfolding dict_update_def
  by (induction e arbitrary: d) (auto simp: map_of_dict_set)

lemma solution_codes_keys:
  "fst ` set (solution_codes row :: (string \<times> 'f pyval) list)
     \<subseteq> {''solution_code_python'', ''solution_code_java'', ''solution_code_cpp''}"
  by (auto simp: solution_codes_def Let_def split: option.splits if_splits)

lemma build_csv_problem_fields:
  "\<exists>d. build_csv_problem lib row i = PDict d
     \<and> map_of d ''id'' = Some (PInt i)
     \<and> map_of d ''difficulty'' = Some (PStr (str_strip (row_get row ''difficulty'' [])))
     \<and> map_of d ''title'' = Some (PStr (str_strip (row_get row ''title'' [])))
     \<and> map_of d ''titleSlug'' = Some (PStr (str_strip (row_get row ''titleSlug'' [])))
     \<and> map_of d ''url'' = Some (PStr (str_strip (row_get row ''url'' [])))
     \<and> map_of d ''description'' = Some (PStr (str_strip (row_get row ''description'' [])))"
proof -
  let ?codes = "solution_codes row :: (string \<times> 'f pyval) list"
  have k: "k \<notin> fst ` set ?codes"
    if "k \<in> {''id'', ''difficulty'', ''title'', ''titleSlug'', ''url'', ''description''}" for k
    using that solution_codes_keys[of row] by auto
  show ?thesis
    by (simp add: build_csv_problem_def Let_def map_of_dict_set map_of_dict_update_other k)
qed


lemma dict_set_nonempty: "dict_set d k v \<noteq> []"
  by (cases d) (auto split: if_splits)



lemma catch_all_keeps:
  "k \<in> set recognized_columns \<Longrightarrow>
   map_of (foldl (\<lambda>metadata (key, val).
                  if key \<notin> set recognized_columns \<and> val \<noteq> [] \<and> str_strip val \<noteq> []
                  then dict_set metadata key (PStr (str_strip val))
                  else metadata) m row) k = map_of m k"
  by (induction row arbitrary: m) (auto simp: map_of_dict_set)



lemma foldl_nonempty:
  "(\<And>acc x. acc \<noteq> [] \<Longrightarrow> f acc x \<noteq> []) \<Longrightarrow> m \<noteq> [] \<Longrightarrow> foldl f m xs \<noteq> []"
  by (induction xs arbitrary: m) simp_all

lemma catch_all_nonempty:
  "m \<noteq> [] \<Longrightarrow>
   foldl (\<lambda>metadata (key, val).
                  if key \<notin> set recognized_columns \<and> val \<noteq> [] \<and> str_strip val \<noteq> []
                  then dict_set metadata key (PStr (str_strip val))
                  else metadata) m row \<noteq> []"
  by (rule foldl_nonempty) (simp_all add: dict_set_nonempty split: prod.splits)
lemma csv_metadata_nonempty: "csv_metadata lib row \<noteq> []"
  unfolding csv_metadata_def Let_def
  by (rule catch_all_nonempty) (simp add: dict_set_nonempty)

lemma csv_metadata_category:
  "map_of (csv_metadata lib row) ''category'' = Some (PStr (str_strip (row_get row ''category'' [])))"
proof -
  have r: "''category'' \<in> set recognized_columns"
    by (simp add: recognized_columns_def)
  show ?thesis
    unfolding csv_metadata_def Let_def
    by (simp add: catch_all_keeps[OF r] map_of_dict_set)
qed

lemma build_csv_problem_metadata:
  "\<exists>d. build_csv_problem lib row i = PDict d
     \<and> map_of d ''metadata'' = Some (PDict (csv_metadata lib row))"
  by (simp add: build_csv_problem_def Let_def map_of_dict_set csv_metadata_nonempty)

lemma parse_csv_row_cases:
  "parse_csv_row lib row = Inr None
   \<or> (\<exists>i. parse_csv_row lib row = Inr (Some (build_csv_problem lib row i)))"
  by (auto simp add: parse_csv_row_def parse_csv_row_try_def Let_def split: option.splits)

lemma build_csv_problem_well_formed: "well_formed_problem (build_csv_problem lib row i)"
proof -
  obtain d where d: "build_csv_problem lib row i = PDict d"
    "map_of d ''id'' = Some (PInt i)"
    "map_of d ''difficulty'' = Some (PStr (str_strip (row_get row ''difficulty'' [])))"
    "map_of d ''title'' = Some (PStr (str_strip (row_get row ''title'' [])))"
    "map_of d ''titleSlug'' = Some (PStr (str_strip (row_get row ''titleSlug'' [])))"
    "map_of d ''url'' = Some (PStr (str_strip (row_get row ''url'' [])))"
    "map_of d ''description'' = Some (PStr (str_strip (row_get row ''description'' [])))"
    using build_csv_problem_fields[of lib row i] by blast
  show ?thesis
    unfolding well_formed_problem_def int_id_def d(1)
    by (simp add: d(2-7))
qed

text \<open>
  C9. For every row of strings, \<open>parse_csv_row\<close> never raises: the handler of its
  \<open>try\<close> block turns every exception of the body into \<open>None\<close>. It returns either
  \<open>None\<close> or a problem with an integer id and the five text fields present as strings.
\<close>

theorem parse_csv_row_total:
  "parse_csv_row lib row \<noteq> Inl e
   \<and> (parse_csv_row lib row = Inr None
      \<or> (\<exists>p. parse_csv_row lib row = Inr (Some p) \<and> well_formed_problem p))"
  using parse_csv_row_cases[of lib row] build_csv_problem_well_formed[of lib row]
  by auto

subsection \<open>Identifier and category of a normalized record\<close>

text \<open>
  C1. The identifier of a row is accepted by \<open>int\<close> alone, with no floating-point parse
  before it: the identifier \<open>"1931.0"\<close> raises \<open>ValueError\<close> in the body, so the row is
  dropped, while \<open>"1931"\<close> gives the problem with id 1931.
\<close>

theorem parse_csv_row_float_like_id:
  "parse_csv_row_try lib [(''frontendQuestionId'', ''1931.0''), (''title'', ''T'')] = Inl ValueError
   \<and> parse_csv_row lib [(''frontendQuestionId'', ''1931.0''), (''title'', ''T'')] = Inr None
   \<and> parse_csv_row lib [(''frontendQuestionId'', ''1931''), (''title'', ''T'')]
       = Inr (Some (build_csv_problem lib [(''frontendQuestionId'', ''1931''), (''title'', ''T'')] 1931))"
  by (simp add: parse_csv_row_def parse_csv_row_try_def row_get_def str_strip_def strip_by_def
        py_isspace_def int_of_str_def int_isspace_def int_literal_def max_str_digits_def
        is_digit_def digit_val_def
        should_process_problem_def)

lemma str_strip_Nil: "str_strip [] = []"
  by (simp add: str_strip_def strip_by_def)

lemma parse_json_problem_category:
  assumes "map_of d ''category'' = None"
      and "parse_json_problem lib (PDict d) = Inr (Some p)"
  shows "metadata_category p = Inr (PStr ''General'')"
  using assms
  by (auto simp: parse_json_problem_def parse_json_problem_try_def exc_bind_def
        metadata_category_def split: if_splits sum.splits)

lemma parse_csv_row_category:
  assumes "parse_csv_row lib row = Inr (Some q)"
  shows "metadata_category q = Inr (PStr (str_strip (row_get row ''category'' [])))"
proof -
  from assms parse_csv_row_cases[of lib row]
  obtain i where q: "q = build_csv_problem lib row i" by auto
  obtain d where d: "build_csv_problem lib row i = PDict d"
    "map_of d ''metadata'' = Some (PDict (csv_metadata lib row))"
    using build_csv_problem_metadata[of lib row i] by blast
  show ?thesis
    by (simp add: q d metadata_category_def exc_bind_def csv_metadata_category)
qed

text \<open>
  C10. A structured problem object without a \<open>category\<close> key gets the metadata category
  \<open>'General'\<close>; a row whose \<open>category\<close> column is missing or empty gets the empty
  string. The two normalizers disagree on the default.
\<close>

theorem category_defaults_differ:
  assumes "map_of d ''category'' = None"
      and "parse_json_problem lib (PDict d) = Inr (Some p)"
      and "row_get row ''category'' [] = []"
      and "parse_csv_row lib row = Inr (Some q)"
  shows "metadata_category p = Inr (PStr ''General'')
         \<and> metadata_category q = Inr (PStr [])
         \<and> metadata_category p \<noteq> metadata_category q"
  using parse_json_problem_category[OF assms(1,2)] parse_csv_row_category[OF assms(4)] assms(3)
  by (simp add: str_strip_Nil)

theorem category_defaults_differ_witness:
  "map_of sample_object ''category'' = None
   \<and> row_get sample_row ''category'' [] = []
   \<and> (\<exists>p q. parse_json_problem sample_lib (PDict sample_object) = Inr (Some p)
          \<and> parse_csv_row sample_lib sample_row = Inr (Some q)
          \<and> metadata_category p = Inr (PStr ''General'')
          \<and> metadata_category q = Inr (PStr []))"
proof -
  have a: "map_of sample_object ''category'' = None"
    by (simp add: sample_object_def)
  have b: "row_get sample_row ''category'' [] = []"
    by (simp add: sample_row_def row_get_def)
  obtain p where p: "parse_json_problem sample_lib (PDict sample_object) = Inr (Some p)"
    by (simp add: parse_json_problem_def parse_json_problem_try_def exc_bind_def
          sample_object_def should_process_problem_def)
  have q: "parse_csv_row sample_lib sample_row
           = Inr (Some (build_csv_problem sample_lib sample_row 1262))"
    by (simp add: parse_csv_row_def parse_csv_row_try_def row_get_def str_strip_def strip_by_def
          py_isspace_def int_of_str_def int_isspace_def int_literal_def max_str_digits_def
        is_digit_def digit_val_def
          should_process_problem_def sample_row_def)
  show ?thesis
    using category_defaults_differ[OF a p b q] a b p q by blast
qed

subsection \<open>Essentials builder\<close>

lemma problem_is_dict: "is_problem p \<Longrightarrow> \<exists>d. p = PDict d"
  by (cases p) (simp_all add: is_problem_def int_id_def)

lemma essential_of_problem:
  assumes "is_problem p"
  shows "essential_of p = Inr (summary_of p)"
proof -
  from problem_is_dict[OF assms] obtain d where d: "p = PDict d"
    by blast
  from assms obtain i where i: "map_of d ''id'' = Some (PInt i)"
    by (auto simp: d is_problem_def int_id_def split: option.splits pyval.splits)
  from assms obtain t where t: "map_of d ''title'' = Some t"
    by (auto simp: d is_problem_def split: option.splits)
  from assms obtain df where df: "map_of d ''difficulty'' = Some df"
    by (auto simp: d is_problem_def split: option.splits)
  show ?thesis
  proof (cases "map_of d ''metadata''")
    case None
    then show ?thesis
      by (simp add: d i t df essential_of_def summary_of_def field_def metadata_field_def
            exc_bind_def)
  next
    case (Some m)
    with assms obtain md where md: "m = PDict md"
      by (auto simp: d is_problem_def split: pyval.splits)
    show ?thesis
      by (simp add: d i t df Some md essential_of_def summary_of_def field_def
            metadata_field_def exc_bind_def split: option.splits)
  qed
qed

lemma summary_of_id:
  assumes "is_problem p"
  shows "int_id (summary_of p) = Some (problem_id p)"
proof -
  from problem_is_dict[OF assms] obtain d where d: "p = PDict d"
    by blast
  from assms obtain i where i: "map_of d ''id'' = Some (PInt i)"
    by (auto simp: d is_problem_def int_id_def split: option.splits pyval.splits)
  show ?thesis
    by (simp add: d i summary_of_def field_def int_id_def problem_id_def)
qed

lemma exc_map_essentials:
  "list_all is_problem ps \<Longrightarrow> exc_map essential_of ps = Inr (map summary_of ps)"
  by (induction ps) (simp_all add: essential_of_problem)

lemma summary_ids:
  "list_all is_problem ps \<Longrightarrow> map problem_id (map summary_of ps) = map problem_id ps"
  by (induction ps) (simp_all add: summary_of_id problem_id_def)

lemma summaries_have_ids:
  "list_all is_problem ps \<Longrightarrow> list_all (\<lambda>x. int_id x \<noteq> None) (map summary_of ps)"
  by (induction ps) (auto simp: summary_of_id)

lemma create_essentials_entry_eq:
  assumes "list_all is_problem ps"
  shows "create_essentials_entry ps =
           Inr (PDict [(''problems'', PList (sort_key problem_id (map summary_of ps))),
                       (''count'', PInt (int (length ps))),
                       (''last_updated'', PNone)])"
proof -
  have k: "(\<lambda>x. the (int_id x)) = (problem_id :: 'a pyval \<Rightarrow> int)"
    by (simp add: fun_eq_iff problem_id_def)
  show ?thesis
    using summaries_have_ids[OF assms]
    by (simp add: create_essentials_entry_def exc_bind_def exc_map_essentials[OF assms]
          sort_by_id_def k)
qed

lemma sort_key_permutation:
  assumes "mset xs = mset ys" and "distinct (map f xs)"
  shows "sort_key f xs = sort_key f ys"
proof -
  have s: "set xs = set ys"
    using assms(1) by (rule mset_eq_setD)
  have m: "mset (map f xs) = mset (map f ys)"
    using assms(1) by simp
  have d: "distinct (map f ys)"
    using mset_eq_imp_distinct_iff[OF m] assms(2) by simp
  have inj: "inj_on f (set xs)"
    using assms(2) by (simp add: distinct_map)
  have "map f (sort_key f xs) = map f (sort_key f ys)"
  proof (rule sorted_distinct_set_unique)
    show "sorted (map f (sort_key f xs))" by simp
    show "sorted (map f (sort_key f ys))" by simp
    show "distinct (map f (sort_key f xs))" using assms(2) by (simp add: distinct_map)
    show "distinct (map f (sort_key f ys))" using d by (simp add: distinct_map)
    show "set (map f (sort_key f xs)) = set (map f (sort_key f ys))" using s by simp
  qed
  then show ?thesis
    using inj s by (simp add: inj_on_map_eq_map)
qed

lemma map_sort_key: "map f (sort_key f xs) = sort (map f xs)"
  by (rule properties_for_sort[symmetric]) simp_all

text \<open>
  C6. For problems with pairwise different ids, \<open>create_essentials_entry\<close> gives the same
  entry for every reordering of its input. Its \<open>problems\<close> are the 5-field summaries of the
  problems (\<open>summary_of\<close>: id, title, difficulty, and the category and topics of the
  metadata), one for each problem, in ascending order of id, and \<open>count\<close> is their number.
\<close>

theorem create_essentials_entry_sorted:
  assumes "list_all is_problem ps"
      and "distinct (map problem_id ps)"
      and "mset ps' = mset ps"
  shows "create_essentials_entry ps' = create_essentials_entry ps
         \<and> (\<exists>es. create_essentials_entry ps =
                    Inr (PDict [(''problems'', PList es),
                                (''count'', PInt (int (length es))),
                                (''last_updated'', PNone)])
                \<and> es = sort_key problem_id (map summary_of ps)
                \<and> mset es = mset (map summary_of ps)
                \<and> map problem_id es = sort (map problem_id ps))"
proof -
  have p': "list_all is_problem ps'"
    using assms(1) mset_eq_setD[OF assms(3)] by (simp add: list_all_iff)
  have m: "mset (map summary_of ps') = mset (map summary_of ps)"
    using assms(3) by simp
  have d: "distinct (map problem_id (map summary_of ps'))"
    using assms(2) mset_eq_imp_distinct_iff[of "map problem_id ps'" "map problem_id ps"] assms(3)
    by (simp only: summary_ids[OF p']) simp
  have l: "length ps' = length ps"
    using assms(3) by (rule mset_eq_length)
  have "create_essentials_entry ps' = create_essentials_entry ps"
    unfolding create_essentials_entry_eq[OF p'] create_essentials_entry_eq[OF assms(1)]
    using sort_key_permutation[OF m d] l by simp
  moreover have "map problem_id (sort_key problem_id (map summary_of ps)) = sort (map problem_id ps)"
    by (simp only: map_sort_key summary_ids[OF assms(1)])
  ultimately show ?thesis
    using create_essentials_entry_eq[OF assms(1)] by simp
qed

theorem create_essentials_entry_sorted_witness:
  "list_all is_problem [sample_problem 1931, sample_problem 1262, sample_problem 2000]
   \<and> distinct (map problem_id [sample_problem 1931, sample_problem 1262, sample_problem 2000])
   \<and> mset [sample_problem 2000, sample_problem 1931, sample_problem 1262]
       = mset [sample_problem 1931, sample_problem 1262, sample_problem 2000]
   \<and> create_essentials_entry [sample_problem 2000, sample_problem 1931, sample_problem 1262]
       = create_essentials_entry [sample_problem 1931, sample_problem 1262, sample_problem 2000]
   \<and> create_essentials_entry [sample_problem 1931, sample_problem 1262, sample_problem 2000]
       = Inr (PDict
           [(''problems'',
             PList [PDict [(''id'', PInt 1262), (''title'', PStr ''T''),
                           (''difficulty'', PStr ''Easy''), (''category'', PStr ''Array''),
                           (''topics'', PList [])],
                    PDict [(''id'', PInt 1931), (''title'', PStr ''T''),
                           (''difficulty'', PStr ''Easy''), (''category'', PStr ''Array''),
                           (''topics'', PList [])],
                    PDict [(''id'', PInt 2000), (''title'', PStr ''T''),
                           (''difficulty'', PStr ''Easy''), (''category'', PStr ''Array''),
                           (''topics'', PList [])]]),
            (''count'', PInt 3),
            (''last_updated'', PNone)])"
proof -
  have a: "list_all is_problem [sample_problem 1931, sample_problem 1262, sample_problem 2000]"
    by (simp add: is_problem_def int_id_def sample_problem_def)
  have i: "problem_id (sample_problem i) = i" for i
    by (simp add: problem_id_def int_id_def sample_problem_def)
  have j: "problem_id (summary_of (sample_problem i)) = i" for i
    by (simp add: problem_id_def int_id_def sample_problem_def summary_of_def field_def)
  have s: "summary_of (sample_problem i)
             = PDict [(''id'', PInt i), (''title'', PStr ''T''), (''difficulty'', PStr ''Easy''),
                      (''category'', PStr ''Array''), (''topics'', PList [])]" for i
    by (simp add: sample_problem_def summary_of_def field_def metadata_field_def)
  have b: "distinct (map problem_id [sample_problem 1931, sample_problem 1262, sample_problem 2000])"
    by (simp add: i)
  have c: "mset [sample_problem 2000, sample_problem 1931, sample_problem 1262]
             = mset [sample_problem 1931, sample_problem 1262, sample_problem 2000]"
    by (simp add: add.commute)
  have e: "sort_key problem_id (map summary_of
              [sample_problem 1931, sample_problem 1262, sample_problem 2000])
           = [summary_of (sample_problem 1262), summary_of (sample_problem 1931),
              summary_of (sample_problem 2000)]"
    by (simp add: j)
  show ?thesis
    using create_essentials_entry_sorted[OF a b c] a b c e by (simp add: s)
qed

subsection \<open>The timestamp of the essentials entry\<close>

lemma put_requests: "snd (put store log key val) = log @ [(key, val)]"
  by (simp add: put_def requests_put_def split: http_result.splits)

text \<open>
  C8. The entry that \<open>create_essentials_entry\<close> returns carries no timestamp: its
  \<open>last_updated\<close> is \<open>None\<close>. The caller, \<open>upload_file_to_kv\<close>, sets it to the decimal text
  of the current time, and what it writes under the key \<open>essentials\<close> is the entry with
  that timestamp.
\<close>

theorem last_updated_set_by_caller:
  assumes "create_essentials_entry ps = Inr e"
  shows "subscript e ''last_updated'' = Inr PNone
         \<and> (\<exists>e'. set_item e ''last_updated'' (PStr (str_of_int now)) = Inr e'
                \<and> subscript e' ''last_updated'' = Inr (PStr (str_of_int now))
                \<and> subscript e' ''problems'' = subscript e ''problems''
                \<and> subscript e' ''count'' = subscript e ''count''
                \<and> requests (upload_essentials lib store ps now counts log)
                    = log @ [(''essentials'', json_dumps lib e')])"
proof -
  from assms obtain es where e: "e = PDict [(''problems'', PList es),
      (''count'', PInt (int (length es))), (''last_updated'', PNone)]"
    by (auto simp: create_essentials_entry_def exc_bind_def split: sum.splits)
  let ?e' = "PDict [(''problems'', PList es), (''count'', PInt (int (length es))),
                    (''last_updated'', PStr (str_of_int now))]"
  have s: "set_item e ''last_updated'' (PStr (str_of_int now)) = Inr ?e'"
    by (simp add: e)
  obtain ok log' where p: "put store log ''essentials'' (json_dumps lib ?e') = (ok, log')"
    by (cases "put store log ''essentials'' (json_dumps lib ?e')") simp
  have l: "log' = log @ [(''essentials'', json_dumps lib ?e')]"
    using put_requests[of store log "''essentials''" "json_dumps lib ?e'"] p by simp
  have r: "requests (upload_essentials lib store ps now counts log)
             = log @ [(''essentials'', json_dumps lib ?e')]"
    by (cases ok) (simp_all add: upload_essentials_def assms exc_bind_def s p l)
  show ?thesis
    using s r by (simp add: e)
qed

theorem last_updated_set_by_caller_witness:
  "\<exists>e. create_essentials_entry [sample_problem 1931] = Inr e
       \<and> subscript e ''last_updated'' = Inr PNone
       \<and> (\<exists>e'. set_item e ''last_updated'' (PStr (str_of_int 1700000000)) = Inr e'
              \<and> subscript e' ''last_updated'' = Inr (PStr (str_of_int 1700000000))
              \<and> requests (upload_essentials sample_lib (\<lambda>log key val. Status 200)
                            [sample_problem 1931] 1700000000 (0, 0) [])
                  = [(''essentials'', json_dumps sample_lib e')])"
proof -
  have a: "list_all is_problem [sample_problem 1931 :: unit pyval]"
    by (simp add: is_problem_def int_id_def sample_problem_def)
  obtain e where e: "create_essentials_entry [sample_problem 1931 :: unit pyval] = Inr e"
    by (simp add: create_essentials_entry_eq[OF a])
  show ?thesis
    using last_updated_set_by_caller[OF e, of 1700000000 sample_lib "\<lambda>log key val. Status 200" "(0, 0)" "[]"] e
    by auto
qed

subsection \<open>Batch uploader\<close>

lemma accepted_status: "accepted (Status code) = (code \<in> set [200, 201])"
  by (auto simp: accepted_def)

lemma write_failed_iff: "write_failed r = (\<not> accepted r)"
  by (simp add: write_failed_def accepted_def)

lemma put_bulk_loop_outcomes:
  "put_bulk_loop store entries (r, log) =
     (\<lparr>success = success r + int (length (filter accepted (write_outcomes store log entries))),
       failed = failed r + int (length (filter write_failed (write_outcomes store log entries)))\<rparr>,
      log @ entries)"
proof (induction entries arbitrary: r log)
  case Nil
  show ?case by simp
next
  case (Cons a entries)
  obtain key val where a: "a = (key, val)"
    by (cases a)
  show ?case
  proof (cases "store log key val")
    case (Status code)
    show ?thesis
      unfolding a
      by (simp add: requests_put_def Status Cons.IH write_failed_iff accepted_status
            del: set_simps)
  next
    case Raised
    show ?thesis
      unfolding a
      by (simp add: requests_put_def Raised Cons.IH write_failed_iff accepted_def)
  qed
qed

lemma put_bulk_outcomes:
  "put_bulk store log entries =
     (\<lparr>success = int (length (filter accepted (write_outcomes store log entries))),
       failed = int (length (filter write_failed (write_outcomes store log entries)))\<rparr>,
      log @ entries)"
  by (simp add: put_bulk_def put_bulk_loop_outcomes)

lemma write_outcomes_append:
  "write_outcomes store log (xs @ ys)
     = write_outcomes store log xs @ write_outcomes store (log @ xs) ys"
  by (induction xs arbitrary: log) auto

lemma write_outcomes_length: "length (write_outcomes store log xs) = length xs"
  by (induction xs arbitrary: log) auto

lemma outcomes_split:
  "length (filter accepted xs) + length (filter write_failed xs) = length xs"
  by (induction xs) (auto simp: write_failed_iff)

lemma problem_entry_has_id: "has_id p \<Longrightarrow> problem_entry lib p = Inr (entry_of lib p)"
  by (cases p)
     (auto simp: has_id_def entry_of_def field_def problem_entry_def exc_bind_def
        split: option.splits)

lemma exc_map_entries:
  "list_all has_id ps \<Longrightarrow> exc_map (problem_entry lib) ps = Inr (map (entry_of lib) ps)"
  by (induction ps) (simp_all add: problem_entry_has_id)

lemma batch_at_has_id: "list_all has_id ps \<Longrightarrow> list_all has_id (batch_at ps b i)"
  unfolding batch_at_def list_all_iff
  by (meson in_set_dropD in_set_takeD)

lemma batch_entries:
  "list_all has_id ps \<Longrightarrow>
   exc_map (problem_entry lib) (batch_at ps b i) = Inr (map (entry_of lib) (batch_at ps b i))"
  by (rule exc_map_entries) (rule batch_at_has_id)

lemma upload_batches_store:
  assumes "list_all has_id ps"
  shows "upload_batches lib (put_bulk store) ps b starts ((s, f), log)
           = (Inr (s + int (length (filter accepted
                       (write_outcomes store log
                          (map (entry_of lib) (concat (map (batch_at ps b) starts)))))),
                   f + int (length (filter write_failed
                       (write_outcomes store log
                          (map (entry_of lib) (concat (map (batch_at ps b) starts))))))),
              log @ map (entry_of lib) (concat (map (batch_at ps b) starts)))"
proof (induction starts arbitrary: s f log)
  case Nil
  show ?case by simp
next
  case (Cons i starts)
  let ?es = "map (entry_of lib) (batch_at ps b i)"
  have step: "upload_batches lib (put_bulk store) ps b (i # starts) ((s, f), log)
                = upload_batches lib (put_bulk store) ps b starts
                    ((s + int (length (filter accepted (write_outcomes store log ?es))),
                      f + int (length (filter write_failed (write_outcomes store log ?es)))),
                     log @ ?es)"
    by (simp add: batch_entries[OF assms] put_bulk_outcomes)
  show ?case
    unfolding step Cons.IH by (simp add: write_outcomes_append)
qed

lemma upload_batches_recording:
  assumes "list_all has_id ps"
  shows "upload_batches lib recording_uploader ps b starts ((s, f), calls)
           = (Inr (s + int (length (concat (map (batch_at ps b) starts))), f),
              calls @ map (map (entry_of lib)) (map (batch_at ps b) starts))"
proof (induction starts arbitrary: s calls)
  case Nil
  show ?case by simp
next
  case (Cons i starts)
  have step: "upload_batches lib recording_uploader ps b (i # starts) ((s, f), calls)
                = upload_batches lib recording_uploader ps b starts
                    ((s + int (length (batch_at ps b i)), f),
                     calls @ [map (entry_of lib) (batch_at ps b i)])"
    by (simp add: batch_entries[OF assms] recording_uploader_def)
  show ?case
    unfolding step Cons.IH by simp
qed

lemma py_range_concat:
  "0 < step \<Longrightarrow>
   concat (map (\<lambda>i. take step (drop i xs)) (py_range i (length xs) step)) = drop i xs"
proof (induction i "length xs" step rule: py_range.induct)
  case (1 i step)
  show ?case
  proof (cases "i < length xs")
    case True
    have "concat (map (\<lambda>i. take step (drop i xs)) (py_range i (length xs) step))
            = take step (drop i xs)
              @ concat (map (\<lambda>i. take step (drop i xs)) (py_range (i + step) (length xs) step))"
      using True 1(2) by (subst py_range.simps) simp
    also have "\<dots> = take step (drop i xs) @ drop (i + step) xs"
      using 1(1)[OF _ 1(2)] True 1(2) by simp
    also have "\<dots> = drop i xs"
      by (simp add: add.commute[of i step] drop_drop[symmetric] del: drop_drop)
    finally show ?thesis .
  next
    case False
    then show ?thesis
      by (subst py_range.simps) simp
  qed
qed

lemma py_range_length:
  "0 < step \<Longrightarrow> length (py_range i stop step) = (stop - i + step - 1) div step"
proof (induction i stop step rule: py_range.induct)
  case (1 i stop step)
  show ?case
  proof (cases "i < stop")
    case True
    have "length (py_range i stop step) = Suc (length (py_range (i + step) stop step))"
      using True 1(2) by (subst py_range.simps) simp
    also have "\<dots> = Suc ((stop - (i + step) + step - 1) div step)"
      using 1(1)[OF _ 1(2)] True 1(2) by simp
    also have "\<dots> = (stop - i + step - 1) div step"
    proof (cases "i + step \<le> stop")
      case True
      define x where "x = stop - (i + step) + step - 1"
      have e: "stop - i + step - 1 = x + step"
        unfolding x_def using True 1(2) by simp
      have "(x + step) div step = Suc (x div step)"
        using 1(2) div_add_self2[of step x] by simp
      then show ?thesis
        unfolding e x_def[symmetric] by simp
    next
      case False
      then have a: "stop - (i + step) + step - 1 < step" "step \<le> stop - i + step - 1"
                   "stop - i + step - 1 < 2 * step"
        using True 1(2) by simp_all
      have "(stop - i + step - 1) div step = 1"
        using a(2,3) 1(2) by (simp add: div_nat_eqI)
      then show ?thesis
        using a(1) by simp
    qed
    finally show ?thesis .
  next
    case False
    then have "stop - i + step - 1 < step"
      using 1(2) by simp
    then show ?thesis
      using False by (subst py_range.simps) simp
  qed
qed

lemma py_range_bounds:
  "0 < step \<Longrightarrow> list_all (\<lambda>j. j < stop) (py_range i stop step)"
proof (induction i stop step rule: py_range.induct)
  case (1 i stop step)
  show ?case
    using 1 by (subst py_range.simps) simp
qed

lemma py_range_butlast:
  "0 < step \<Longrightarrow> list_all (\<lambda>j. j + step \<le> stop) (butlast (py_range i stop step))"
proof (induction i stop step rule: py_range.induct)
  case (1 i stop step)
  show ?case
  proof (cases "i < stop")
    case True
    show ?thesis
    proof (cases "i + step < stop")
      case t: True
      have n: "py_range (i + step) stop step \<noteq> []"
        using t 1(2) by (subst py_range.simps) simp
      show ?thesis
        using 1(1)[OF _ 1(2)] True 1(2) t n by (subst py_range.simps) simp
    next
      case False
      then have n: "py_range (i + step) stop step = []"
        by (subst py_range.simps) simp
      show ?thesis
        using True 1(2) n by (subst py_range.simps) simp
    qed
  next
    case False
    then show ?thesis
      by (subst py_range.simps) simp
  qed
qed

lemma batches_eq:
  "0 < b \<Longrightarrow> batches ps b = map (\<lambda>i. take (nat b) (drop i ps)) (py_range 0 (length ps) (nat b))"
  by (simp add: batches_def batch_starts_def batch_at_def fun_eq_iff)

lemma batches_concat: "0 < b \<Longrightarrow> concat (batches ps b) = ps"
  using py_range_concat[of "nat b" ps 0] by (simp add: batches_eq)

lemma batches_length: "0 < b \<Longrightarrow> length (batches ps b) = (length ps + nat b - 1) div nat b"
  using py_range_length[of "nat b" 0 "length ps"] by (simp add: batches_eq)

lemma batches_sizes:
  assumes "0 < b"
  shows "list_all (\<lambda>batch. batch \<noteq> [] \<and> length batch \<le> nat b) (batches ps b)"
  using py_range_bounds[of "nat b" "length ps" 0] assms
  by (auto simp: batches_eq list_all_iff)

lemma batches_full:
  assumes "0 < b"
  shows "list_all (\<lambda>batch. length batch = nat b) (butlast (batches ps b))"
  using py_range_butlast[of "nat b" "length ps" 0] assms
  by (auto simp: batches_eq list_all_iff map_butlast[symmetric])

lemma batches_starts:
  "0 < b \<Longrightarrow> map (batch_at ps b) (py_range 0 (length ps) (nat b)) = batches ps b"
  by (simp add: batches_def batch_starts_def)

lemma upload_problems_recording:
  assumes "0 < b" and "list_all has_id ps"
  shows "upload_problems lib recording_uploader ps b []
           = (Inr (int (length ps), 0), map (map (entry_of lib)) (batches ps b))"
  using assms(1)
  by (simp add: upload_problems_def batch_starts_def upload_batches_recording[OF assms(2)]
        batches_starts[OF assms(1)] batches_concat[OF assms(1)])

lemma upload_problems_store:
  assumes "0 < b" and "list_all has_id ps"
  shows "upload_problems lib (put_bulk store) ps b log
           = (Inr (int (length (filter accepted
                      (write_outcomes store log (map (entry_of lib) ps)))),
                   int (length (filter write_failed
                      (write_outcomes store log (map (entry_of lib) ps))))),
              log @ map (entry_of lib) ps)"
  using assms(1)
  by (simp add: upload_problems_def batch_starts_def upload_batches_store[OF assms(2)]
        batches_starts[OF assms(1)] batches_concat[OF assms(1)])

text \<open>
  C3. For problems whose ids can be read and a positive batch size \<open>b\<close>:

  \<^item> the batches are contiguous and in order (their concatenation is the list), there are
    \<open>\<lceil>n / b\<rceil>\<close> of them, none is empty, all but the last have \<open>b\<close> problems and the last at
    most \<open>b\<close>;
  \<^item> the loop calls \<open>put_bulk\<close> once for each batch, in order, with the entries of that
    batch: an uploader that records its calls has received exactly the batches;
  \<^item> with the real \<open>put_bulk\<close>, one write is attempted for every problem, in the order of
    the list, each with the key \<open>problem:\<close>\<open>id\<close> and the JSON text of the problem; the loop
    does not raise, the success count is the number of writes the store accepted (status
    200 or 201), the failed count the number it rejected or that raised, and the two add
    up to \<open>n\<close>.
\<close>

theorem upload_problems_batches:
  assumes "0 < b" and "list_all has_id ps"
  shows "concat (batches ps b) = ps
         \<and> length (batches ps b) = (length ps + nat b - 1) div nat b
         \<and> list_all (\<lambda>batch. batch \<noteq> [] \<and> length batch \<le> nat b) (batches ps b)
         \<and> list_all (\<lambda>batch. length batch = nat b) (butlast (batches ps b))
         \<and> upload_problems lib recording_uploader ps b []
             = (Inr (int (length ps), 0), map (map (entry_of lib)) (batches ps b))
         \<and> (\<exists>s f. upload_problems lib (put_bulk store) ps b log
                      = (Inr (s, f), log @ map (entry_of lib) ps)
                  \<and> s + f = int (length ps) \<and> 0 \<le> s \<and> 0 \<le> f
                  \<and> s = int (length (filter accepted
                            (write_outcomes store log (map (entry_of lib) ps))))
                  \<and> f = int (length (filter write_failed
                            (write_outcomes store log (map (entry_of lib) ps)))))"
proof -
  have "int (length (filter accepted (write_outcomes store log (map (entry_of lib) ps))))
          + int (length (filter write_failed (write_outcomes store log (map (entry_of lib) ps))))
        = int (length ps)"
    using outcomes_split[of "write_outcomes store log (map (entry_of lib) ps)"]
    by (simp add: write_outcomes_length del: of_nat_add add: of_nat_add[symmetric])
  then show ?thesis
    using batches_concat[OF assms(1), of ps] batches_length[OF assms(1), of ps]
      batches_sizes[OF assms(1), of ps] batches_full[OF assms(1), of ps]
      upload_problems_recording[OF assms, of lib] upload_problems_store[OF assms, of lib store log]
    by simp
qed

lemma py_range_5_2: "py_range 0 5 2 = [0, 2, 4]"
  by (simp add: py_range.simps)

lemma sample_keys:
  "str_of_int 1931 = ''1931''" "str_of_int 1262 = ''1262''" "str_of_int 2000 = ''2000''"
  "str_of_int 2001 = ''2001''" "str_of_int 2002 = ''2002''"
  by code_simp+

theorem upload_problems_batches_witness:
  "0 < (2 :: int) \<and> list_all has_id sample_problems
   \<and> length sample_problems = 5
   \<and> map length (batches sample_problems 2) = [2, 2, 1]
   \<and> concat (batches sample_problems 2) = sample_problems
   \<and> map (map fst) (snd (upload_problems sample_lib recording_uploader sample_problems 2 []))
       = [[''problem:1931'', ''problem:1262''], [''problem:2000'', ''problem:2001''],
          [''problem:2002'']]
   \<and> write_outcomes fail_third [] (map (entry_of sample_lib) sample_problems)
       = [Status 200, Status 200, Status 500, Status 200, Status 200]
   \<and> fst (upload_problems sample_lib (put_bulk fail_third) sample_problems 2 []) = Inr (4, 1)
   \<and> map fst (snd (upload_problems sample_lib (put_bulk fail_third) sample_problems 2 []))
       = [''problem:1931'', ''problem:1262'', ''problem:2000'', ''problem:2001'',
          ''problem:2002'']"
proof -
  have a: "list_all has_id sample_problems"
    by (simp add: sample_problems_def has_id_def sample_problem_def)
  have l: "length sample_problems = 5"
    by (simp add: sample_problems_def)
  have b: "map length (batches sample_problems 2) = [2, 2, 1]"
    by (simp add: batches_def batch_starts_def batch_at_def l py_range_5_2)
  have c: "batches sample_problems 2
             = [[sample_problem 1931, sample_problem 1262],
                [sample_problem 2000, sample_problem 2001], [sample_problem 2002]]"
    by (simp add: batches_def batch_starts_def batch_at_def l py_range_5_2)
       (simp add: sample_problems_def)
  have k: "fst (entry_of sample_lib (sample_problem i)) = ''problem:'' @ str_of_int i" for i
    by (simp add: entry_of_def sample_problem_def field_def py_str_def)
  have e: "map (entry_of sample_lib) sample_problems
             = [(''problem:1931'', ''{}''), (''problem:1262'', ''{}''), (''problem:2000'', ''{}''),
                (''problem:2001'', ''{}''), (''problem:2002'', ''{}'')]"
    by (simp add: sample_problems_def entry_of_def sample_problem_def field_def py_str_def
          sample_lib_def sample_keys)
  show ?thesis
    using upload_problems_batches[OF _ a, of 2 sample_lib fail_third "[]"] a l b
    by (simp add: c k sample_keys e accepted_def write_failed_def fail_third_def)
qed

subsection \<open>Pipeline driver\<close>

lemma sample_json_file_read:
  "read_problems sample_lib sample_json_file
     = Inr (Some [PDict [(''id'', PInt 1262), (''difficulty'', PStr []),
                         (''title'', PStr ''Two Sum''), (''titleSlug'', PStr []),
                         (''url'', PStr []), (''description'', PStr []),
                         (''metadata'', PDict [(''topics'', PList []),
                                               (''category'', PStr ''General'')])]])"
  by (simp add: read_problems_def sample_json_file_def endswith_def exc_bind_def
        parse_json_problem_def parse_json_problem_try_def sample_object_def
        should_process_problem_def keep_problems_def List.map_filter_def)


lemma sample_csv_file_read: "read_problems sample_lib sample_csv_file = Inr (Some [])"
  by (simp add: read_problems_def sample_csv_file_def endswith_def exc_bind_def
        parse_csv_row_def parse_csv_row_try_def row_get_def str_strip_def strip_by_def
        py_isspace_def int_of_str_def int_isspace_def int_literal_def max_str_digits_def
        is_digit_def digit_val_def should_process_problem_def keep_problems_def
        List.map_filter_def)

lemma sample_entry:
  "create_essentials_entry
     [PDict [(''id'', PInt 1262), (''difficulty'', PStr []),
             (''title'', PStr ''Two Sum''), (''titleSlug'', PStr []),
             (''url'', PStr []), (''description'', PStr []),
             (''metadata'', PDict [(''topics'', PList []),
                                   (''category'', PStr ''General'')])] :: unit pyval]
   = Inr (PDict [(''problems'', PList [PDict [(''id'', PInt 1262), (''title'', PStr ''Two Sum''),
                                              (''difficulty'', PStr []),
                                              (''category'', PStr ''General''),
                                              (''topics'', PList [])]]),
                 (''count'', PInt 1), (''last_updated'', PNone)])"
  by (simp add: create_essentials_entry_def essential_of_def exc_bind_def sort_by_id_def
        int_id_def)

lemma sample_run_rejected:
  "returned (upload_file_to_kv sample_lib reject_all sample_json_file 50 False now []) = Inr (0, 2)"
  by (simp add: upload_file_to_kv_def sample_json_file_read upload_problems_def batch_starts_def
        py_range.simps batch_at_def problem_entry_def exc_bind_def put_bulk_def requests_put_def
        reject_all_def upload_essentials_def sample_entry put_def)

lemma sample_run_accepted:
  "returned (upload_file_to_kv sample_lib accept_all sample_json_file 50 False now []) = Inr (2, 0)"
  by (simp add: upload_file_to_kv_def sample_json_file_read upload_problems_def batch_starts_def
        py_range.simps batch_at_def problem_entry_def exc_bind_def put_bulk_def requests_put_def
        accept_all_def upload_essentials_def sample_entry put_def)

text \<open>
  A run in which both writes are rejected: \<open>upload_file_to_kv\<close> returns a failed count of
  2, and \<open>main\<close> still returns normally, so the process exits with code 0.
\<close>

theorem main_exit_code_with_failures:
  "returned (upload_file_to_kv sample_lib reject_all sample_json_file 50 False 1700000000 [])
     = Inr (0, 2)
   \<and> exit_code (main sample_lib reject_all (Some sample_json_file) 50 False 1700000000) = 0"
  by (simp add: main_def Let_def sample_run_rejected)

text \<open>
  C4, as the code has it. When \<open>upload_file_to_kv\<close> returns, the status that \<open>main\<close> logs is
  the success message exactly when the failed count is 0, and otherwise the warning that
  carries the failed count. The exit code does not tell the two apart: it is 0 in both cases
  (it is 1 only for a missing file or an exception).
\<close>

theorem main_status_by_failed_count:
  assumes "returned (upload_file_to_kv lib store file batch_size skip_essentials now [])
             = Inr (s, f)"
  shows "exit_code (main lib store (Some file) batch_size skip_essentials now) = 0
         \<and> (status (main lib store (Some file) batch_size skip_essentials now)
              = AllUploadsCompleted \<longleftrightarrow> f = 0)
         \<and> (f \<noteq> 0 \<longrightarrow> status (main lib store (Some file) batch_size skip_essentials now)
                          = UploadsFailed f)"
  by (simp add: main_def Let_def assms)

theorem main_status_by_failed_count_witness:
  "returned (upload_file_to_kv sample_lib reject_all sample_json_file 50 False 1700000000 [])
     = Inr (0, 2)
   \<and> (2 :: int) \<noteq> 0
   \<and> exit_code (main sample_lib reject_all (Some sample_json_file) 50 False 1700000000) = 0
   \<and> status (main sample_lib reject_all (Some sample_json_file) 50 False 1700000000)
       = UploadsFailed 2
   \<and> returned (upload_file_to_kv sample_lib accept_all sample_json_file 50 False 1700000000 [])
       = Inr (2, 0)
   \<and> exit_code (main sample_lib accept_all (Some sample_json_file) 50 False 1700000000) = 0
   \<and> status (main sample_lib accept_all (Some sample_json_file) 50 False 1700000000)
       = AllUploadsCompleted"
  using main_status_by_failed_count[OF sample_run_rejected[of 1700000000]]
    main_status_by_failed_count[OF sample_run_accepted[of 1700000000]]
    sample_run_rejected[of 1700000000] sample_run_accepted[of 1700000000]
  by simp

text \<open>
  A file in which no row passes the filter: \<open>main\<close> returns normally, with exit code 0 and
  the success message.
\<close>

theorem main_exit_code_without_problems:
  "read_problems sample_lib sample_csv_file = Inr (Some [])
   \<and> exit_code (main sample_lib accept_all (Some sample_csv_file) 50 False 1700000000) = 0
   \<and> status (main sample_lib accept_all (Some sample_csv_file) 50 False 1700000000)
       = AllUploadsCompleted"
  by (simp add: main_def Let_def upload_file_to_kv_def sample_csv_file_read)

text \<open>
  C5, as the code has it. When parsing yields no problem, \<open>upload_file_to_kv\<close> logs the
  warning that no problems were found, attempts no write at all, neither of a problem nor
  of the essentials entry, and returns the counts (0, 0); \<open>main\<close> then logs the success
  message and the process exits with code 0.
\<close>

theorem no_problems_no_upload:
  assumes "read_problems lib file = Inr (Some [])"
  shows "upload_file_to_kv lib store file batch_size skip_essentials now log
           = \<lparr>returned = Inr (0, 0), requests = log, logged = [NoProblemsFound]\<rparr>
         \<and> main lib store (Some file) batch_size skip_essentials now
           = \<lparr>exit_code = 0, status = AllUploadsCompleted, sent = [],
              warnings = [NoProblemsFound]\<rparr>"
  by (simp add: main_def Let_def upload_file_to_kv_def assms)

theorem no_problems_no_upload_witness:
  "read_problems sample_lib sample_csv_file = Inr (Some [])
   \<and> upload_file_to_kv sample_lib reject_all sample_csv_file 50 False 1700000000 []
       = \<lparr>returned = Inr (0, 0), requests = [], logged = [NoProblemsFound]\<rparr>
   \<and> main sample_lib reject_all (Some sample_csv_file) 50 False 1700000000
       = \<lparr>exit_code = 0, status = AllUploadsCompleted, sent = [],
          warnings = [NoProblemsFound]\<rparr>"
  using no_problems_no_upload[OF sample_csv_file_read, of reject_all 50 False 1700000000 "[]"]
    sample_csv_file_read
  by simp






end
